theory Spec2Isabelle
  imports Complex_Main
begin

section \<open>JavaScript values\<close>

text \<open>
  A JavaScript \<open>number\<close> is modelled as a real (finite values, arithmetic taken as exact;
  the infinities are left out) or \<open>NaN\<close>. \<open>NaN\<close> is kept because the source can produce
  it: reading a tuple element that is not there gives \<open>undefined\<close>, and
  \<open>undefined * 0.5\<close> is \<open>NaN\<close>. \<open>Math.min\<close> returns \<open>NaN\<close> when an argument is
  \<open>NaN\<close>, and every comparison with \<open>NaN\<close> is false.
\<close>

datatype number = Num real | NaN

fun Math_min :: "number \<Rightarrow> number \<Rightarrow> number" where
  "Math_min (Num a) (Num b) = Num (min a b)"
| "Math_min _ _ = NaN"

fun js_greater :: "number \<Rightarrow> number \<Rightarrow> bool" where
  "js_greater (Num a) (Num b) = (b < a)"
| "js_greater _ _ = False"

fun js_times :: "number \<Rightarrow> number \<Rightarrow> number" where
  "js_times (Num a) (Num b) = Num (a * b)"
| "js_times _ _ = NaN"

text \<open>\<open>ToNumber\<close> of a possibly undefined value (\<open>None\<close> is \<open>undefined\<close>).\<close>

fun ToNumber :: "number option \<Rightarrow> number" where
  "ToNumber None = NaN"
| "ToNumber (Some x) = x"

text \<open>
  What a \<open>throw\<close> carries: \<open>new Error(message)\<close>, or the \<open>TypeError\<close> of reading a
  property of \<open>null\<close>.
\<close>

datatype error = Error string | TypeError

subsection \<open>The built-in \<open>Map\<close>\<close>

text \<open>
  A JavaScript \<open>Map\<close> keeps its entries in insertion order: \<open>set\<close> on a key that is
  present replaces the value in place, on an absent key it appends; \<open>delete\<close> removes the
  entry and returns whether there was one. Neither throws.
\<close>

fun Map_set :: "'k \<Rightarrow> 'v \<Rightarrow> ('k \<times> 'v) list \<Rightarrow> ('k \<times> 'v) list" where
  "Map_set k v [] = [(k, v)]"
| "Map_set k v ((k', v') # m) = (if k' = k then (k, v) # m else (k', v') # Map_set k v m)"

definition Map_delete :: "'k \<Rightarrow> ('k \<times> 'v) list \<Rightarrow> bool \<times> ('k \<times> 'v) list" where
  "Map_delete k m = (map_of m k \<noteq> None, filter (\<lambda>(k', _). k' \<noteq> k) m)"

section \<open>The physics engine\<close>

type_synonym Vec3 = "number \<times> number \<times> number"
type_synonym Quat = "number \<times> number \<times> number \<times> number"

text \<open>
  \<open>new jolt.BoxShape(halfExtent, convexRadius, null)\<close> and
  \<open>new jolt.SphereShape(radius, null)\<close>; the material argument is always \<open>null\<close>.
\<close>

datatype Shape = BoxShape Vec3 number | SphereShape number

datatype EMotionType = Static | Kinematic | Dynamic

datatype ObjectLayer = NON_MOVING | MOVING

datatype EActivation = Activate | DontActivate

record BodyCreationSettings =
  mShape :: Shape
  mPosition :: Vec3
  mRotation :: Quat
  mMotionType :: EMotionType
  mObjectLayer :: ObjectLayer
  mRestitution :: number

text \<open>The constructor call of lines 137-143; the engine's default restitution is 0.\<close>

definition new_BodyCreationSettings ::
  "Shape \<Rightarrow> Vec3 \<Rightarrow> Quat \<Rightarrow> EMotionType \<Rightarrow> ObjectLayer \<Rightarrow> BodyCreationSettings" where
  "new_BodyCreationSettings sh p q mt ol =
     \<lparr>mShape = sh, mPosition = p, mRotation = q, mMotionType = mt, mObjectLayer = ol,
      mRestitution = Num 0\<rparr>"

text \<open>
  Modelled from the spec: the engine itself (the \<open>jolt-physics\<close> package) is an external
  library and not part of the source. Section 6 of the spec gives its contract: body
  creation, destruction and activation, gravity, and a \<open>step(deltaSeconds, subSteps)\<close>
  primitive whose internals are a black box. A body is identified by its id; the world
  holds the bodies that were created and not yet destroyed, each with its creation
  settings and, once added to the simulation, the activation mode it was added with.
  Ids come from a counter and are never handed out twice. \<open>transforms\<close> is what
  \<open>GetPosition\<close> and \<open>GetRotation\<close> read for a body id. The solver is a parameter.
\<close>

record Body =
  settings :: BodyCreationSettings
  in_world :: "EActivation option"

record PhysicsSystem =
  gravity :: Vec3
  next_id :: nat
  live :: "(nat \<times> Body) list"
  transforms :: "nat \<Rightarrow> Vec3 \<times> Quat"

text \<open>
  Modelled from the spec: the solver behind \<open>Step\<close>, an opaque function of the timestep,
  the number of sub-steps and the world that gives every body its new transform.
\<close>

type_synonym solver = "number \<Rightarrow> nat \<Rightarrow> PhysicsSystem \<Rightarrow> nat \<Rightarrow> Vec3 \<times> Quat"

text \<open>
  Modelled from the spec: \<open>BodyInterface.CreateBody\<close> of the engine. It allocates a body
  with the next id, not yet added to the simulation, at the position and rotation of its
  settings.
\<close>

definition CreateBody :: "BodyCreationSettings \<Rightarrow> PhysicsSystem \<Rightarrow> nat \<times> PhysicsSystem" where
  "CreateBody s w =
     (next_id w,
      w\<lparr>next_id := Suc (next_id w),
        live := live w @ [(next_id w, \<lparr>settings = s, in_world = None\<rparr>)],
        transforms := (transforms w)(next_id w := (mPosition s, mRotation s))\<rparr>)"

text \<open>
  Modelled from the spec: \<open>BodyInterface.AddBody\<close> of the engine. It adds the body with
  that id to the simulation, with the given activation mode.
\<close>

definition AddBody :: "nat \<Rightarrow> EActivation \<Rightarrow> PhysicsSystem \<Rightarrow> PhysicsSystem" where
  "AddBody b a w =
     w\<lparr>live := map (\<lambda>(i, x). if i = b then (i, x\<lparr>in_world := Some a\<rparr>) else (i, x)) (live w)\<rparr>"

text \<open>
  Modelled from the spec: \<open>BodyInterface.DestroyBody\<close> of the engine. The body with that
  id is no longer in the world. What the engine does when asked to destroy a body that is
  not in the world is outside the contract; the claims below destroy bodies that are in it.
\<close>

definition DestroyBody :: "nat \<Rightarrow> PhysicsSystem \<Rightarrow> PhysicsSystem" where
  "DestroyBody b w = w\<lparr>live := filter (\<lambda>(i, _). i \<noteq> b) (live w)\<rparr>"

text \<open>
  Modelled from the spec: \<open>JoltInterface.Step\<close> of the engine. It moves the bodies as the
  solver says and neither creates nor destroys one.
\<close>

definition Step :: "solver \<Rightarrow> number \<Rightarrow> nat \<Rightarrow> PhysicsSystem \<Rightarrow> PhysicsSystem" where
  "Step solve dt n w = w\<lparr>transforms := solve dt n w\<rparr>"

text \<open>Modelled from the spec: the world's body count, and the ids of its bodies.\<close>

definition GetNumBodies :: "PhysicsSystem \<Rightarrow> nat" where
  "GetNumBodies w = length (live w)"

definition body_ids :: "PhysicsSystem \<Rightarrow> nat set" where
  "body_ids w = fst ` set (live w)"

section \<open>The physics context\<close>

text \<open>
  The value of a registry entry, \<open>{ body, three }\<close>: the engine body (by id) and the
  scene object (by its \<open>Object3D\<close> id, which three.js gives to one object only).
\<close>

record body_record =
  body :: nat
  three :: nat

text \<open>The calls made on the engine and on the registry, in the order they are made.\<close>

datatype event =
    CreateBody_call nat
  | AddBody_call nat EActivation
  | DestroyBody_call nat
  | Step_call number nat
  | bodies_set_call nat
  | bodies_delete_call nat

text \<open>
  The mutable state behind \<open>PhysicsContextType\<close>: the engine world, the \<open>bodies\<close> map,
  and with them the transforms of the scene objects that the map's records refer to.
\<close>

record physics =
  physicsSystem :: PhysicsSystem
  bodies :: "(nat \<times> body_record) list"
  scene :: "nat \<Rightarrow> Vec3 \<times> Quat"
  trace :: "event list"

text \<open>
  Lines 26-41: gravity is set to \<open>(0, -10, 0)\<close> and \<open>bodies\<close> is a new, empty \<open>Map\<close>.
  A scene object starts at the origin with the identity quaternion.
\<close>

definition Physics_init :: physics where
  "Physics_init =
     \<lparr>physicsSystem =
        \<lparr>gravity = (Num 0, Num (- 10), Num 0), next_id = 0, live = [],
         transforms = (\<lambda>_. ((Num 0, Num 0, Num 0), (Num 0, Num 0, Num 0, Num 1)))\<rparr>,
      bodies = [],
      scene = (\<lambda>_. ((Num 0, Num 0, Num 0), (Num 0, Num 0, Num 0, Num 1))),
      trace = []\<rparr>"

subsection \<open>The frame callback (lines 43-60)\<close>

text \<open>
  \<open>delta\<close> is the time since the last frame. The callback clamps it, chooses the number
  of sub-steps from the clamped value, steps the world, and then copies the position and
  rotation of every registered body to its scene object, in the order of the \<open>Map\<close>.
\<close>

definition useFrame_callback :: "solver \<Rightarrow> number \<Rightarrow> physics \<Rightarrow> physics" where
  "useFrame_callback solve delta st =
     (let deltaTime = Math_min delta (Num (1 / 30));
          numSteps = (if js_greater deltaTime (Num (1 / 55)) then 2 else 1);
          st1 = st\<lparr>physicsSystem := Step solve deltaTime numSteps (physicsSystem st),
                   trace := trace st @ [Step_call deltaTime numSteps]\<rparr>
      in st1\<lparr>scene :=
               fold (\<lambda>(_, r) sc. sc(three r := transforms (physicsSystem st1) (body r)))
                 (bodies st1) (scene st1)\<rparr>)"

subsection \<open>The rigid body component (lines 80-161)\<close>

text \<open>
  \<open>args\<close> is \<open>BoxShapeArgs | SphereShapeArgs\<close>, a tuple of three numbers or of one.
  Element 0 is always there; elements 1 and 2 are \<open>undefined\<close> on the shorter tuple.
\<close>

datatype args = BoxShapeArgs number number number | SphereShapeArgs number

fun args_0 :: "args \<Rightarrow> number" where
  "args_0 (BoxShapeArgs x _ _) = x"
| "args_0 (SphereShapeArgs r) = r"

fun args_1 :: "args \<Rightarrow> number option" where
  "args_1 (BoxShapeArgs _ y _) = Some y"
| "args_1 (SphereShapeArgs _) = None"

fun args_2 :: "args \<Rightarrow> number option" where
  "args_2 (BoxShapeArgs _ _ z) = Some z"
| "args_2 (SphereShapeArgs _) = None"

text \<open>
  The props. \<open>shape\<close> and \<open>type\<close> are strings at run time, whatever their declared
  types: the source has an \<open>else\<close> branch for every other string.
\<close>

record RigidBodyProps =
  type :: string
  shapeType :: string
  args :: args
  position :: Vec3

text \<open>Lines 105-120.\<close>

definition make_shape :: "string \<Rightarrow> args \<Rightarrow> error + Shape" where
  "make_shape shape_type a =
     (if shape_type = ''box'' then
        (let sx = args_0 a; sy = args_1 a; sz = args_2 a
         in Inr (BoxShape (js_times sx (Num 0.5), js_times (ToNumber sy) (Num 0.5),
                           js_times (ToNumber sz) (Num 0.5)) (Num 0.05)))
      else if shape_type = ''sphere'' then
        (let radius = args_0 a in Inr (SphereShape radius))
      else Inl (Error (''unsupported shape type '' @ shape_type)))"

text \<open>Lines 122-135.\<close>

definition motion :: "string \<Rightarrow> error + EMotionType \<times> ObjectLayer" where
  "motion t =
     (if t = ''static'' then Inr (Static, NON_MOVING)
      else if t = ''kinematic'' then Inr (Kinematic, MOVING)
      else if t = ''dynamic'' then Inr (Dynamic, MOVING)
      else Inl (Error (''unsupported type '' @ t)))"

text \<open>The three statements that change the state, each leaving its event in the trace.\<close>

definition bodyInterface_CreateBody :: "BodyCreationSettings \<Rightarrow> physics \<Rightarrow> nat \<times> physics" where
  "bodyInterface_CreateBody s st =
     (let (b, w) = CreateBody s (physicsSystem st)
      in (b, st\<lparr>physicsSystem := w, trace := trace st @ [CreateBody_call b]\<rparr>))"

definition bodyInterface_AddBody :: "nat \<Rightarrow> EActivation \<Rightarrow> physics \<Rightarrow> physics" where
  "bodyInterface_AddBody b a st =
     st\<lparr>physicsSystem := AddBody b a (physicsSystem st), trace := trace st @ [AddBody_call b a]\<rparr>"

definition bodyInterface_DestroyBody :: "nat \<Rightarrow> physics \<Rightarrow> physics" where
  "bodyInterface_DestroyBody b st =
     st\<lparr>physicsSystem := DestroyBody b (physicsSystem st), trace := trace st @ [DestroyBody_call b]\<rparr>"

definition bodies_set :: "nat \<Rightarrow> body_record \<Rightarrow> physics \<Rightarrow> physics" where
  "bodies_set k r st = st\<lparr>bodies := Map_set k r (bodies st), trace := trace st @ [bodies_set_call k]\<rparr>"

definition bodies_delete :: "nat \<Rightarrow> physics \<Rightarrow> bool \<times> physics" where
  "bodies_delete k st =
     (let (found, m) = Map_delete k (bodies st)
      in (found, st\<lparr>bodies := m, trace := trace st @ [bodies_delete_call k]\<rparr>))"

text \<open>
  The effect of lines 104-153, run when the component is mounted. The ref is created as
  \<open>useRef<Group>(null!)\<close>: \<open>ref.current\<close> is \<open>null\<close> (\<open>None\<close>) until a group is
  attached to it, and then holds that group, given here by its id. Reading
  \<open>ref.current.id\<close> of \<open>null\<close> throws. A \<open>throw\<close> is \<open>Inl\<close>, with the state as it
  is at that point; on normal completion the result is the body that the cleanup
  closure captures.
\<close>

definition RigidBody_effect ::
  "RigidBodyProps \<Rightarrow> nat option \<Rightarrow> physics \<Rightarrow> (error + nat) \<times> physics" where
  "RigidBody_effect p ref_current st =
     (case make_shape (shapeType p) (args p) of
        Inl e \<Rightarrow> (Inl e, st)
      | Inr shape \<Rightarrow>
          (case motion (type p) of
             Inl e \<Rightarrow> (Inl e, st)
           | Inr (motionType, objectLayer) \<Rightarrow>
               (let creationSettings =
                      (new_BodyCreationSettings shape (position p)
                         (Num 0, Num 0, Num 0, Num 1) motionType objectLayer)
                      \<lparr>mRestitution := Num 0.5\<rparr>;
                    (b, st1) = bodyInterface_CreateBody creationSettings st;
                    st2 = bodyInterface_AddBody b Activate st1
                in case ref_current of
                     None \<Rightarrow> (Inl TypeError, st2)
                   | Some current \<Rightarrow>
                       (Inr b, bodies_set current \<lparr>body = b, three = current\<rparr> st2))))"

text \<open>
  The cleanup closure of lines 154-157, run when the component is unmounted.
  \<open>ref.current\<close> is read when the cleanup runs, not when the effect ran; \<open>b\<close> is the
  captured body. With a group attached neither statement throws, and the closure
  returns nothing.
\<close>

definition RigidBody_cleanup ::
  "nat option \<Rightarrow> nat \<Rightarrow> physics \<Rightarrow> (error + unit) \<times> physics" where
  "RigidBody_cleanup ref_current b st =
     (case ref_current of
        None \<Rightarrow> (Inl TypeError, st)
      | Some current \<Rightarrow>
          (let (_, st1) = bodies_delete current st;
               st2 = bodyInterface_DestroyBody b st1
           in (Inr (), st2)))"

section \<open>Well-formed worlds and sample states\<close>

text \<open>Every live body has an id below the counter, so the next id is fresh.\<close>

definition wf_world :: "PhysicsSystem \<Rightarrow> bool" where
  "wf_world w = (\<forall>(i, x) \<in> set (live w). i < next_id w)"

text \<open>The floor of lines 185-190, and the state after mounting it with group id 7.\<close>

definition floor_props :: RigidBodyProps where
  "floor_props =
     \<lparr>type = ''static'', shapeType = ''box'',
      args = BoxShapeArgs (Num 100) (Num 1) (Num 100),
      position = (Num 0, Num (- 1), Num 0)\<rparr>"

definition floor_mounted :: physics where
  "floor_mounted = snd (RigidBody_effect floor_props (Some 7) Physics_init)"

text \<open>A second body mounted next to the floor, with group id 9.\<close>

definition second_mounted :: physics where
  "second_mounted = snd (RigidBody_effect floor_props (Some 9) floor_mounted)"




section \<open>The \<open>Map\<close> operations\<close>

lemma map_of_Map_set: "map_of (Map_set k v m) = (map_of m)(k \<mapsto> v)"
  by (induction m) (auto simp: fun_eq_iff)

lemma map_of_Map_delete: "map_of (snd (Map_delete k m)) = (map_of m)(k := None)"
  by (induction m) (auto simp: Map_delete_def fun_eq_iff)

lemma length_Map_set: "map_of m k \<noteq> None \<Longrightarrow> length (Map_set k v m) = length m"
  by (induction m) (auto split: if_splits)

lemma Map_set_absent: "map_of m k = None \<Longrightarrow> Map_set k v m = m @ [(k, v)]"
  by (induction m) (auto split: if_splits)


section \<open>The frame callback\<close>

lemma Step_call_of_frame:
  "trace (useFrame_callback solve delta st) =
     trace st @ [Step_call (Math_min delta (Num (1 / 30)))
                   (if js_greater (Math_min delta (Num (1 / 30))) (Num (1 / 55)) then 2 else 1)]"
  by (simp add: useFrame_callback_def Let_def)

lemma Step_of_frame:
  "physicsSystem (useFrame_callback solve delta st) =
     Step solve (Math_min delta (Num (1 / 30)))
       (if js_greater (Math_min delta (Num (1 / 30))) (Num (1 / 55)) then 2 else 1)
       (physicsSystem st)"
  by (simp add: useFrame_callback_def Let_def)

lemma frame_NaN:
  "trace (useFrame_callback solve NaN st) = trace st @ [Step_call NaN 1]"
  by (simp add: Step_call_of_frame)

lemma frame_keeps:
  "bodies (useFrame_callback solve delta st) = bodies st"
  "live (physicsSystem (useFrame_callback solve delta st)) = live (physicsSystem st)"
  "next_id (physicsSystem (useFrame_callback solve delta st)) = next_id (physicsSystem st)"
  by (simp_all add: useFrame_callback_def Let_def Step_def)




text \<open>
  C10: for every frame tick with \<open>rawDelta \<ge> 0\<close>, the world is stepped with the clamped
  timestep and one or two sub-steps, and the timestep divided by the number of sub-steps
  is at most 1/55 second, and at most 1/60 second when there are two sub-steps.
\<close>

theorem substep_duration_bounded:
  assumes "0 \<le> rawDelta"
  shows "\<exists>dt n. dt = min rawDelta (1 / 30) \<and> n = (if 1 / 55 < rawDelta then 2 else 1)
           \<and> trace (useFrame_callback solve (Num rawDelta) st) =
                 trace st @ [Step_call (Num dt) n]
           \<and> physicsSystem (useFrame_callback solve (Num rawDelta) st) =
                 Step solve (Num dt) n (physicsSystem st)
           \<and> (n = 1 \<or> n = 2)
           \<and> dt / real n \<le> 1 / 55 \<and> (n = 2 \<longrightarrow> dt / real n \<le> 1 / 60)"
proof (cases "1 / 55 < rawDelta")
  case True
  have "min rawDelta (1 / 30) / 2 \<le> 1 / 60"
    by simp
  moreover have "(1::real) / 60 \<le> 1 / 55"
    by simp
  ultimately show ?thesis
    using True by (simp add: Step_call_of_frame Step_of_frame)
next
  case False
  then show ?thesis
    by (simp add: Step_call_of_frame Step_of_frame)
qed

theorem substep_duration_bounded_witness:
  "(0::real) \<le> 1 / 40
   \<and> trace (useFrame_callback (\<lambda>dt k w. transforms w) (Num (1 / 40)) Physics_init) =
       [Step_call (Num (1 / 40)) 2]
   \<and> (1 / 40) / real (2::nat) \<le> (1 / 60 :: real)"
proof -
  have pos: "(0::real) \<le> 1 / 40"
    by simp
  from substep_duration_bounded[OF pos, of "\<lambda>dt k w. transforms w" Physics_init]
  obtain dt :: real and n :: nat where
    dt: "dt = min (1 / 40) (1 / 30)" and n: "n = (if (1 / 55 :: real) < 1 / 40 then 2 else 1)"
    and tr: "trace (useFrame_callback (\<lambda>dt k w. transforms w) (Num (1 / 40)) Physics_init) =
               trace Physics_init @ [Step_call (Num dt) n]"
    by blast
  from dt have "dt = 1 / 40"
    by simp
  moreover from n have "n = 2"
    by simp
  moreover have "trace Physics_init = []"
    by (simp add: Physics_init_def)
  ultimately show ?thesis
    using tr by simp
qed

section \<open>What the effect and the cleanup compute\<close>

lemma live_create_add_destroy:
  assumes "wf_world w"
  shows "live (DestroyBody (next_id w) (AddBody (next_id w) a (snd (CreateBody s w)))) = live w"
proof -
  have *: "\<forall>(i, x) \<in> set xs. i \<noteq> next_id w \<Longrightarrow>
     filter (\<lambda>(i, _). i \<noteq> next_id w)
       (map (\<lambda>(i, x). if i = next_id w then (i, x\<lparr>in_world := Some a\<rparr>) else (i, x)) xs) = xs"
    for xs
    by (induction xs) auto
  have "\<forall>(i, x) \<in> set (live w). i \<noteq> next_id w"
    using assms by (auto simp: wf_world_def)
  from *[OF this] show ?thesis
    by (simp add: DestroyBody_def AddBody_def CreateBody_def)
qed

lemma effect_ok:
  assumes "make_shape (shapeType p) (args p) = Inr sh" and "motion (type p) = Inr (mt, ol)"
  shows "RigidBody_effect p (Some e) st =
     (Inr (next_id (physicsSystem st)),
      st\<lparr>physicsSystem :=
            AddBody (next_id (physicsSystem st)) Activate
              (snd (CreateBody
                 \<lparr>mShape = sh, mPosition = position p, mRotation = (Num 0, Num 0, Num 0, Num 1),
                  mMotionType = mt, mObjectLayer = ol, mRestitution = Num 0.5\<rparr>
                 (physicsSystem st))),
         bodies := Map_set e \<lparr>body = next_id (physicsSystem st), three = e\<rparr> (bodies st),
         trace := trace st @ [CreateBody_call (next_id (physicsSystem st)),
                              AddBody_call (next_id (physicsSystem st)) Activate,
                              bodies_set_call e]\<rparr>)"
  using assms
  by (simp add: RigidBody_effect_def bodyInterface_CreateBody_def bodyInterface_AddBody_def
      bodies_set_def new_BodyCreationSettings_def CreateBody_def Let_def)

lemma effect_null:
  assumes "make_shape (shapeType p) (args p) = Inr sh" and "motion (type p) = Inr (mt, ol)"
  shows "RigidBody_effect p None st =
     (Inl TypeError,
      st\<lparr>physicsSystem :=
            AddBody (next_id (physicsSystem st)) Activate
              (snd (CreateBody
                 \<lparr>mShape = sh, mPosition = position p, mRotation = (Num 0, Num 0, Num 0, Num 1),
                  mMotionType = mt, mObjectLayer = ol, mRestitution = Num 0.5\<rparr>
                 (physicsSystem st))),
         trace := trace st @ [CreateBody_call (next_id (physicsSystem st)),
                              AddBody_call (next_id (physicsSystem st)) Activate]\<rparr>)"
  using assms
  by (simp add: RigidBody_effect_def bodyInterface_CreateBody_def bodyInterface_AddBody_def
      new_BodyCreationSettings_def CreateBody_def Let_def)

lemma effect_cases:
  "(\<exists>msg. RigidBody_effect p r st = (Inl (Error msg), st)) \<or>
   (\<exists>sh mt ol. make_shape (shapeType p) (args p) = Inr sh \<and> motion (type p) = Inr (mt, ol))"
  by (auto simp: RigidBody_effect_def make_shape_def motion_def Let_def)

lemma cleanup_eq:
  "RigidBody_cleanup (Some e) b st =
     (Inr (), st\<lparr>bodies := snd (Map_delete e (bodies st)),
                physicsSystem := DestroyBody b (physicsSystem st),
                trace := trace st @ [bodies_delete_call e, DestroyBody_call b]\<rparr>)"
  by (simp add: RigidBody_cleanup_def bodies_delete_def bodyInterface_DestroyBody_def
      split: prod.splits)

text \<open>
  With no group attached, the cleanup throws at \<open>ref.current.id\<close>, before either
  statement has run: the record stays in the registry and the body stays in the world.
\<close>

lemma cleanup_null: "RigidBody_cleanup None b st = (Inl TypeError, st)"
  by (simp add: RigidBody_cleanup_def)

lemma floor_ok:
  "make_shape (shapeType floor_props) (args floor_props) =
     Inr (BoxShape (Num 50, Num (1 / 2), Num 50) (Num 0.05))"
  "motion (type floor_props) = Inr (Static, NON_MOVING)"
  by (simp_all add: floor_props_def make_shape_def motion_def)

lemma floor_mounted_eq:
  "bodies floor_mounted = [(7, \<lparr>body = 0, three = 7\<rparr>)]"
  "live (physicsSystem floor_mounted) =
     [(0, \<lparr>settings = \<lparr>mShape = BoxShape (Num 50, Num (1 / 2), Num 50) (Num 0.05),
                       mPosition = (Num 0, Num (- 1), Num 0),
                       mRotation = (Num 0, Num 0, Num 0, Num 1),
                       mMotionType = Static, mObjectLayer = NON_MOVING,
                       mRestitution = Num 0.5\<rparr>,
           in_world = Some Activate\<rparr>)]"
  "next_id (physicsSystem floor_mounted) = 1"
  "trace floor_mounted = [CreateBody_call 0, AddBody_call 0 Activate, bodies_set_call 7]"
  unfolding floor_mounted_def effect_ok[OF floor_ok]
  by (simp_all add: Physics_init_def CreateBody_def AddBody_def floor_props_def)

lemma body_ids_destroy: "body_ids (DestroyBody b w) = body_ids w - {b}"
  by (auto simp: body_ids_def DestroyBody_def image_iff)

text \<open>The sample states, computed.\<close>

lemma second_mounted_eq:
  "fst (RigidBody_effect floor_props (Some 9) floor_mounted) = Inr 1"
  "bodies second_mounted = [(7, \<lparr>body = 0, three = 7\<rparr>), (9, \<lparr>body = 1, three = 9\<rparr>)]"
  "map fst (live (physicsSystem second_mounted)) = [0, 1]"
  "trace second_mounted =
     [CreateBody_call 0, AddBody_call 0 Activate, bodies_set_call 7,
      CreateBody_call 1, AddBody_call 1 Activate, bodies_set_call 9]"
  unfolding second_mounted_def effect_ok[OF floor_ok]
  by (simp_all add: floor_mounted_eq CreateBody_def AddBody_def)



section \<open>Creating a body\<close>

text \<open>
  C6: a box descriptor with full dimensions \<open>(sx, sy, sz)\<close> gives a box shape with
  half-extents \<open>(sx * 0.5, sy * 0.5, sz * 0.5)\<close> and convex radius 0.05; a sphere
  descriptor with radius \<open>r\<close> gives a sphere shape with radius \<open>r\<close>.
\<close>

theorem make_shape_box_sphere:
  "make_shape ''box'' (BoxShapeArgs (Num sx) (Num sy) (Num sz)) =
     Inr (BoxShape (Num (sx * 0.5), Num (sy * 0.5), Num (sz * 0.5)) (Num 0.05))
   \<and> make_shape ''sphere'' (SphereShapeArgs r) = Inr (SphereShape r)"
  by (simp add: make_shape_def)

text \<open>
  The shape check does not look at the length of \<open>args\<close>: a box asked for with the
  one-element tuple gets \<open>NaN\<close> for its second and third half-extent.
\<close>

lemma make_shape_box_short_args:
  "make_shape ''box'' (SphereShapeArgs (Num r)) =
     Inr (BoxShape (Num (r * 0.5), NaN, NaN) (Num 0.05))"
  by (simp add: make_shape_def)

text \<open>
  C7: for each supported motion class, the body is created with the pair static to
  (\<open>Static\<close>, \<open>NON_MOVING\<close>), kinematic to (\<open>Kinematic\<close>, \<open>MOVING\<close>), dynamic to
  (\<open>Dynamic\<close>, \<open>MOVING\<close>), and the call that creates it is followed at once by the call
  that adds it to the world with \<open>Activate\<close>. With a group attached to the ref the
  effect then returns normally.
\<close>

theorem body_created_and_activated:
  assumes shape: "make_shape (shapeType p) (args p) = Inr sh"
      and cls: "(type p, mt, ol) \<in> {(''static'', Static, NON_MOVING),
                                   (''kinematic'', Kinematic, MOVING),
                                   (''dynamic'', Dynamic, MOVING)}"
  shows "(next_id (physicsSystem st),
          \<lparr>settings = \<lparr>mShape = sh, mPosition = position p,
                       mRotation = (Num 0, Num 0, Num 0, Num 1),
                       mMotionType = mt, mObjectLayer = ol, mRestitution = Num 0.5\<rparr>,
           in_world = Some Activate\<rparr>)
           \<in> set (live (physicsSystem (snd (RigidBody_effect p r st))))
       \<and> (\<exists>rest. trace (snd (RigidBody_effect p r st)) =
                   trace st @ [CreateBody_call (next_id (physicsSystem st)),
                               AddBody_call (next_id (physicsSystem st)) Activate] @ rest)
       \<and> (\<forall>e. r = Some e \<longrightarrow>
             fst (RigidBody_effect p r st) = Inr (next_id (physicsSystem st)))"
proof -
  from cls have m: "motion (type p) = Inr (mt, ol)"
    by (auto simp: motion_def)
  show ?thesis
  proof (cases r)
    case None
    then show ?thesis
      by (simp add: effect_null[OF shape m] CreateBody_def AddBody_def)
  next
    case (Some e)
    then show ?thesis
      by (simp add: effect_ok[OF shape m] CreateBody_def AddBody_def)
  qed
qed

theorem body_created_and_activated_witness:
  "make_shape (shapeType floor_props) (args floor_props) =
     Inr (BoxShape (Num 50, Num (1 / 2), Num 50) (Num 0.05))
   \<and> (type floor_props, Static, NON_MOVING) \<in>
       {(''static'', Static, NON_MOVING), (''kinematic'', Kinematic, MOVING),
        (''dynamic'', Dynamic, MOVING)}
   \<and> (0, \<lparr>settings = \<lparr>mShape = BoxShape (Num 50, Num (1 / 2), Num 50) (Num 0.05),
                       mPosition = (Num 0, Num (- 1), Num 0),
                       mRotation = (Num 0, Num 0, Num 0, Num 1),
                       mMotionType = Static, mObjectLayer = NON_MOVING,
                       mRestitution = Num 0.5\<rparr>,
           in_world = Some Activate\<rparr>)
        \<in> set (live (physicsSystem (snd (RigidBody_effect floor_props (Some 7) Physics_init))))
   \<and> fst (RigidBody_effect floor_props (Some 7) Physics_init) = Inr 0"
proof -
  have cls: "(type floor_props, Static, NON_MOVING) \<in>
       {(''static'', Static, NON_MOVING), (''kinematic'', Kinematic, MOVING),
        (''dynamic'', Dynamic, MOVING)}"
    by (simp add: floor_props_def)
  have init: "next_id (physicsSystem Physics_init) = 0"
    "position floor_props = (Num 0, Num (- 1), Num 0)"
    by (simp_all add: Physics_init_def floor_props_def)
  from body_created_and_activated[OF floor_ok(1) cls, of Physics_init "Some 7"] floor_ok(1) cls
  show ?thesis
    unfolding init by simp
qed

text \<open>
  C8: when the shape kind is neither box nor sphere, or the motion class is none of
  static, kinematic and dynamic, the effect throws an error that names the unsupported
  value, and the state is the one it started from: no body was created and the registry
  is unchanged. (The shape object built before the motion class is checked is a value
  here, not part of the world.)
\<close>

theorem unsupported_fails_atomically:
  assumes "shapeType p \<notin> {''box'', ''sphere''} \<or> type p \<notin> {''static'', ''kinematic'', ''dynamic''}"
  shows "RigidBody_effect p r st =
           (Inl (Error (if shapeType p \<notin> {''box'', ''sphere''}
                        then ''unsupported shape type '' @ shapeType p
                        else ''unsupported type '' @ type p)), st)"
  using assms
  by (auto simp: RigidBody_effect_def make_shape_def motion_def Let_def)

theorem unsupported_fails_atomically_witness:
  "shapeType (floor_props\<lparr>shapeType := ''capsule''\<rparr>) \<notin> {''box'', ''sphere''}
   \<and> RigidBody_effect (floor_props\<lparr>shapeType := ''capsule''\<rparr>) (Some 7) floor_mounted =
       (Inl (Error ''unsupported shape type capsule''), floor_mounted)"
  using unsupported_fails_atomically[of "floor_props\<lparr>shapeType := ''capsule''\<rparr>" "Some 7" floor_mounted]
  by (simp add: floor_props_def)

section \<open>The registry\<close>

text \<open>
  C3, as amended: registering under an entity id that is already present does not fail.
  The effect completes normally, the record under that id is replaced by the new one, and
  the other records and the number of records stay as they were.
\<close>

theorem register_overwrites:
  assumes present: "map_of (bodies st) e = Some old"
      and shape: "make_shape (shapeType p) (args p) = Inr sh"
      and cls: "motion (type p) = Inr m"
  shows "\<exists>b st'. RigidBody_effect p (Some e) st = (Inr b, st')
           \<and> map_of (bodies st') e = Some \<lparr>body = b, three = e\<rparr>
           \<and> (\<forall>k. k \<noteq> e \<longrightarrow> map_of (bodies st') k = map_of (bodies st) k)
           \<and> length (bodies st') = length (bodies st)"
proof -
  obtain mt ol where "m = (mt, ol)"
    by (cases m)
  with cls have "motion (type p) = Inr (mt, ol)"
    by simp
  from effect_ok[OF shape this, of e st] present show ?thesis
    by (simp add: map_of_Map_set length_Map_set)
qed

theorem register_overwrites_witness:
  "map_of (bodies floor_mounted) 7 = Some \<lparr>body = 0, three = 7\<rparr>
   \<and> (\<exists>b st'. RigidBody_effect floor_props (Some 7) floor_mounted = (Inr b, st')
         \<and> map_of (bodies st') 7 = Some \<lparr>body = b, three = 7\<rparr>
         \<and> length (bodies st') = length (bodies floor_mounted))"
proof -
  have present: "map_of (bodies floor_mounted) 7 = Some \<lparr>body = 0, three = 7\<rparr>"
    by (simp add: floor_mounted_eq)
  from register_overwrites[OF present floor_ok] present show ?thesis
    by blast
qed

text \<open>
  C3 as stated fails: with the floor registered under id 7, mounting a second body with
  the same id returns normally with body 1, and the only record left is the new one.
\<close>

theorem register_duplicate_counterexample:
  "map_of (bodies floor_mounted) 7 = Some \<lparr>body = 0, three = 7\<rparr>
   \<and> fst (RigidBody_effect floor_props (Some 7) floor_mounted) = Inr 1
   \<and> bodies (snd (RigidBody_effect floor_props (Some 7) floor_mounted)) =
       [(7, \<lparr>body = 1, three = 7\<rparr>)]"
  unfolding effect_ok[OF floor_ok]
  by (simp add: floor_mounted_eq)




section \<open>Unmounting\<close>

text \<open>
  With the group still attached to the ref when the cleanup runs, the cleanup removes the
  record, then destroys the body, and returns.
\<close>

lemma cleanup_attached:
  "fst (RigidBody_cleanup (Some e) b st) = Inr ()
   \<and> trace (snd (RigidBody_cleanup (Some e) b st)) =
        trace st @ [bodies_delete_call e, DestroyBody_call b]
   \<and> map_of (bodies (snd (RigidBody_cleanup (Some e) b st))) e = None
   \<and> b \<notin> body_ids (physicsSystem (snd (RigidBody_cleanup (Some e) b st)))"
  by (simp add: cleanup_eq map_of_Map_delete body_ids_destroy)

text \<open>
  Then creating and destroying an entity with no frame tick in between leaves no record
  of it and gives the world the bodies it had before.
\<close>

lemma create_then_destroy_attached:
  assumes wf: "wf_world (physicsSystem st)"
      and mount: "RigidBody_effect p (Some e) st = (Inr b, st1)"
      and unmount: "RigidBody_cleanup (Some e) b st1 = (res, st2)"
  shows "map_of (bodies st2) e = None
       \<and> b \<notin> body_ids (physicsSystem st2)
       \<and> GetNumBodies (physicsSystem st2) = GetNumBodies (physicsSystem st)
       \<and> live (physicsSystem st2) = live (physicsSystem st)
       \<and> (map_of (bodies st) e = None \<longrightarrow> bodies st2 = bodies st)"
proof -
  from effect_cases[of p "Some e" st] mount obtain sh mt ol where
    ok: "make_shape (shapeType p) (args p) = Inr sh" "motion (type p) = Inr (mt, ol)"
    by auto
  note eff = effect_ok[OF ok, of e st]
  from eff mount have b: "b = next_id (physicsSystem st)"
    by simp
  from eff mount have st1: "bodies st1 = Map_set e \<lparr>body = b, three = e\<rparr> (bodies st)"
    "physicsSystem st1 = AddBody b Activate
              (snd (CreateBody
                 \<lparr>mShape = sh, mPosition = position p, mRotation = (Num 0, Num 0, Num 0, Num 1),
                  mMotionType = mt, mObjectLayer = ol, mRestitution = Num 0.5\<rparr>
                 (physicsSystem st)))"
    by auto
  from unmount have st2: "bodies st2 = snd (Map_delete e (bodies st1))"
    "physicsSystem st2 = DestroyBody b (physicsSystem st1)"
    by (auto simp: cleanup_eq)
  have 1: "map_of (bodies st2) e = None"
    by (simp add: st2 map_of_Map_delete)
  have 2: "live (physicsSystem st2) = live (physicsSystem st)"
    unfolding st2 st1 b by (rule live_create_add_destroy[OF wf])
  have 3: "b \<notin> body_ids (physicsSystem st2)"
    by (auto simp: st2 body_ids_def DestroyBody_def)
  have 4: "bodies st2 = bodies st" if "map_of (bodies st) e = None"
  proof -
    from that have "\<forall>x \<in> set (bodies st). fst x \<noteq> e"
      by (auto simp: map_of_eq_None_iff)
    then have "filter (\<lambda>(k', _). k' \<noteq> e) (bodies st) = bodies st"
      by (auto simp: filter_id_conv)
    with that show ?thesis
      by (simp add: st2 st1 Map_set_absent Map_delete_def)
  qed
  from 1 2 3 4 show ?thesis
    by (simp add: GetNumBodies_def)
qed

text \<open>
  C5: an entity created and then destroyed with no frame tick in between should leave no
  record in the registry and the world's body count as it was. The cleanup reads
  \<open>ref.current\<close> when it runs; when the ref has been reset to \<open>null\<close> by then, as it is
  when the group is unmounted, the cleanup throws before it has removed or destroyed
  anything. Here the second body is mounted with group id 9 next to the floor and
  unmounted: its record is still in the registry and the body count is 2, not 1.
\<close>

theorem unmount_null_ref_keeps_entity:
  "fst (RigidBody_effect floor_props (Some 9) floor_mounted) = Inr 1
   \<and> map_of (bodies floor_mounted) 9 = None
   \<and> GetNumBodies (physicsSystem floor_mounted) = 1
   \<and> fst (RigidBody_cleanup None 1 second_mounted) = Inl TypeError
   \<and> map_of (bodies (snd (RigidBody_cleanup None 1 second_mounted))) 9 =
        Some \<lparr>body = 1, three = 9\<rparr>
   \<and> 1 \<in> body_ids (physicsSystem (snd (RigidBody_cleanup None 1 second_mounted)))
   \<and> GetNumBodies (physicsSystem (snd (RigidBody_cleanup None 1 second_mounted))) = 2"
proof -
  have n: "length (live (physicsSystem second_mounted)) =
      length (map fst (live (physicsSystem second_mounted)))"
    by simp
  have "1 \<in> set (map fst (live (physicsSystem second_mounted)))"
    by (simp only: second_mounted_eq) simp
  then have "1 \<in> body_ids (physicsSystem second_mounted)"
    by (simp add: body_ids_def)
  moreover have "GetNumBodies (physicsSystem second_mounted) = 2"
    unfolding GetNumBodies_def n by (simp only: second_mounted_eq) simp
  ultimately show ?thesis
    by (simp add: cleanup_null second_mounted_eq floor_mounted_eq GetNumBodies_def)
qed

text \<open>
  C9: on every exit path of the cleanup the registry entry should be removed and then the
  body destroyed. On the path taken when \<open>ref.current\<close> is \<open>null\<close> neither happens: the
  cleanup of the floor throws, no call is made on the registry or on the engine, the
  record stays and body 0 stays in the world.
\<close>

theorem cleanup_null_ref_releases_nothing:
  "fst (RigidBody_cleanup None 0 floor_mounted) = Inl TypeError
   \<and> trace (snd (RigidBody_cleanup None 0 floor_mounted)) =
        [CreateBody_call 0, AddBody_call 0 Activate, bodies_set_call 7]
   \<and> map_of (bodies (snd (RigidBody_cleanup None 0 floor_mounted))) 7 =
        Some \<lparr>body = 0, three = 7\<rparr>
   \<and> 0 \<in> body_ids (physicsSystem (snd (RigidBody_cleanup None 0 floor_mounted)))"
  by (simp add: cleanup_null floor_mounted_eq body_ids_def)

end
